theory Spec2Isabelle
  imports Complex_Main "HOL-Library.Word" "HOL-Library.Log_Nat"
begin

section \<open>JavaScript values shared by the components\<close>

text \<open>
  A JavaScript string is a sequence of UTF-16 code units. String literals of the
  source are ASCII and are written through \<open>lit\<close>.
\<close>

type_synonym jschar = "16 word"
type_synonym jsstring = "jschar list"

definition lit :: "string \<Rightarrow> jsstring" where
  "lit s = map of_char s"

text \<open>
  The code units that \<open>String.prototype.trim\<close> and \<open>parseFloat\<close> skip: ECMAScript's
  WhiteSpace and LineTerminator productions.
\<close>

definition isWhiteSpace :: "jschar \<Rightarrow> bool" where
  "isWhiteSpace c = (c \<in> set [0x0009, 0x000A, 0x000B, 0x000C, 0x000D, 0x0020, 0x00A0, 0x1680,
      0x2000, 0x2001, 0x2002, 0x2003, 0x2004, 0x2005, 0x2006, 0x2007, 0x2008, 0x2009, 0x200A,
      0x2028, 0x2029, 0x202F, 0x205F, 0x3000, 0xFEFF])"

definition trimStart :: "jsstring \<Rightarrow> jsstring" where
  "trimStart s = dropWhile isWhiteSpace s"

definition trim :: "jsstring \<Rightarrow> jsstring" where
  "trim s = rev (dropWhile isWhiteSpace (rev (trimStart s)))"

text \<open>
  Identifiers arrive from the backend as JSON: a number, a string, null, or nothing at
  all. \<open>===\<close> on such values is equality of the datatype; \<open>truthy\<close> is the test an
  \<open>if (x)\<close> or \<open>!x\<close> performs.
\<close>

datatype jsid = Undefined | Null | Num int | Str jsstring

fun truthy :: "jsid \<Rightarrow> bool" where
  "truthy Undefined = False"
| "truthy Null = False"
| "truthy (Num n) = (n \<noteq> 0)"
| "truthy (Str s) = (s \<noteq> [])"

text \<open>An awaited call to the backend either rejects (the \<open>catch\<close> branch) or resolves.\<close>

datatype 'r outcome = Rejected | Resolved 'r



section \<open>PatientDashboard\<close>

record patient_stats =
  totalPredictions :: int
  ps_consultations :: int
  lastCheckup :: jsstring
  totalModels :: int
  favoriteModel :: "jsstring option"


record 'res patient_dashboard =
  pd_activeTab :: jsstring
  pd_currentResult :: "'res option"
  pd_stats :: patient_stats
  pd_loading :: bool
  pd_statsLoading :: bool

definition pd_initial :: "'res patient_dashboard" where
  "pd_initial = \<lparr> pd_activeTab = lit ''predict'', pd_currentResult = None,
     pd_stats = \<lparr> totalPredictions = 0, ps_consultations = 0, lastCheckup = lit ''Never'',
        totalModels = 5, favoriteModel = Some (lit ''Loading...'') \<rparr>,
     pd_loading = True, pd_statsLoading = False \<rparr>"

text \<open>\<open>handleTabChange\<close>: \<open>setActiveTab(tabId); if (tabId !== 'predict') setCurrentResult(null)\<close>.\<close>

definition handleTabChange :: "jsstring \<Rightarrow> 'res patient_dashboard \<Rightarrow> 'res patient_dashboard" where
  "handleTabChange tabId s =
     (let s1 = s\<lparr>pd_activeTab := tabId\<rparr>
      in if tabId \<noteq> lit ''predict'' then s1\<lparr>pd_currentResult := None\<rparr> else s1)"


subsection \<open>Double arithmetic\<close>

text \<open>
  The arithmetic of the mock data is IEEE 754 binary64. A double is carried as the
  rational it stands for; \<open>toDouble x\<close> is the double nearest to \<open>x\<close>, ties going to
  the even significand, for \<open>x\<close> below the overflow threshold (every value formed from a
  draw of \<open>Math.random()\<close> and a time value is). So \<open>a * b\<close> of the source is
  \<open>toDouble (a * b)\<close>, and \<open>a - b\<close> is \<open>toDouble (a - b)\<close>.

  \<open>binade x\<close> is the exponent \<open>e\<close> with \<open>2^e \<le> |x| < 2^(e+1)\<close> for \<open>|x|\<close> from the
  least subnormal \<open>2^-1074\<close> on; a double has 53 significant bits, so its unit in the
  last place is \<open>2^(e-52)\<close>, and \<open>2^-1074\<close> in the subnormal range.
\<close>

definition roundHalfEven :: "rat \<Rightarrow> int" where
  "roundHalfEven y =
     (let f = \<lfloor>y\<rfloor>; d = y - of_int f
      in if d < 1 / 2 then f else if 1 / 2 < d then f + 1 else if even f then f else f + 1)"

definition subnormalScale :: rat where
  "subnormalScale = 2 ^ 1074"

definition binade :: "rat \<Rightarrow> int" where
  "binade x = bitlen \<lfloor>\<bar>x\<bar> * subnormalScale\<rfloor> - 1075"

definition ulpExponent :: "rat \<Rightarrow> int" where
  "ulpExponent x = max (binade x - 52) (- 1074)"

definition ulp :: "rat \<Rightarrow> rat" where
  "ulp x = 2 powi ulpExponent x"

definition toDouble :: "rat \<Rightarrow> rat" where
  "toDouble x = of_int (roundHalfEven (x / ulp x)) * ulp x"


subsection \<open>The statistics\<close>




section \<open>PredictionForm\<close>

subsection \<open>Numbers and \<open>parseFloat\<close>\<close>

text \<open>
  A number value is NaN, an infinity, or a finite double. A finite double is carried as
  the rational it stands for. \<open>roundDouble\<close> decides where a decimal value leaves the
  finite range: at or beyond \<open>2^1024 - 2^970\<close> it rounds to an infinity, within
  \<open>2^-1075\<close> of zero it rounds to zero; between the two the value is kept as it is (the
  rounding to 53 significant bits does not change whether a number is finite, zero or
  NaN).
\<close>

datatype jsnum = NaN | PosInfinity | NegInfinity | Finite rat

fun isFinite :: "jsnum \<Rightarrow> bool" where
  "isFinite (Finite q) = True"
| "isFinite x = False"

fun negate :: "jsnum \<Rightarrow> jsnum" where
  "negate NaN = NaN"
| "negate PosInfinity = NegInfinity"
| "negate NegInfinity = PosInfinity"
| "negate (Finite q) = Finite (- q)"

definition roundDouble :: "rat \<Rightarrow> jsnum" where
  "roundDouble q =
     (if 2 ^ 1024 - 2 ^ 970 \<le> q then PosInfinity
      else if q \<le> - (2 ^ 1024 - 2 ^ 970) then NegInfinity
      else if \<bar>q\<bar> \<le> 1 / 2 ^ 1075 then Finite 0
      else Finite q)"

text \<open>The operand test of \<open>x || 0\<close> on a number: NaN and zero are falsy.\<close>

definition numTruthy :: "jsnum \<Rightarrow> bool" where
  "numTruthy x = (x \<noteq> NaN \<and> x \<noteq> Finite 0)"

definition orElse :: "jsnum \<Rightarrow> jsnum \<Rightarrow> jsnum" where
  "orElse x d = (if numTruthy x then x else d)"

definition isDigit :: "jschar \<Rightarrow> bool" where
  "isDigit c = (0x30 \<le> c \<and> c \<le> 0x39)"

definition digitsValue :: "jsstring \<Rightarrow> nat" where
  "digitsValue ds = foldl (\<lambda>a c. 10 * a + (unat c - 48)) 0 ds"

text \<open>SignedInteger of an ExponentPart; without a digit there is no exponent part.\<close>

definition signedInteger :: "jsstring \<Rightarrow> int" where
  "signedInteger s =
     (case s of
        [] \<Rightarrow> 0
      | c # r \<Rightarrow>
          if c = 0x2B then (if takeWhile isDigit r = [] then 0 else int (digitsValue (takeWhile isDigit r)))
          else if c = 0x2D then (if takeWhile isDigit r = [] then 0 else - int (digitsValue (takeWhile isDigit r)))
          else (if takeWhile isDigit s = [] then 0 else int (digitsValue (takeWhile isDigit s))))"

definition exponentPart :: "jsstring \<Rightarrow> int" where
  "exponentPart s =
     (case s of
        [] \<Rightarrow> 0
      | c # r \<Rightarrow> if c = 0x65 \<or> c = 0x45 then signedInteger r else 0)"

text \<open>The mathematical value of the digits \<open>d1.d2\<close> scaled by \<open>10^e\<close>.\<close>

definition decimalValue :: "jsstring \<Rightarrow> jsstring \<Rightarrow> int \<Rightarrow> rat" where
  "decimalValue d1 d2 e =
     (let m = of_nat (digitsValue (d1 @ d2)) / 10 ^ length d2
      in if 0 \<le> e then m * 10 ^ nat e else m / 10 ^ nat (- e))"

text \<open>
  The longest prefix that is a StrUnsignedDecimalLiteral: \<open>Infinity\<close>, digits with an
  optional fraction and exponent, or a fraction that starts with the point.
\<close>

definition strUnsignedDecimalLiteral :: "jsstring \<Rightarrow> jsnum" where
  "strUnsignedDecimalLiteral s =
     (if take 8 s = lit ''Infinity'' then PosInfinity
      else
        let d1 = takeWhile isDigit s; r1 = dropWhile isDigit s
        in case r1 of
             [] \<Rightarrow> if d1 = [] then NaN else roundDouble (decimalValue d1 [] 0)
           | c # r2 \<Rightarrow>
               if c = 0x2E
               then (let d2 = takeWhile isDigit r2; r3 = dropWhile isDigit r2
                     in if d1 = [] \<and> d2 = [] then NaN
                        else roundDouble (decimalValue d1 d2 (exponentPart r3)))
               else if d1 = [] then NaN
               else roundDouble (decimalValue d1 [] (exponentPart r1)))"

definition parseFloat :: "jsstring \<Rightarrow> jsnum" where
  "parseFloat inputString =
     (let trimmed = trimStart inputString
      in case trimmed of
           [] \<Rightarrow> NaN
         | c # r \<Rightarrow>
             if c = 0x2D then negate (strUnsignedDecimalLiteral r)
             else if c = 0x2B then strUnsignedDecimalLiteral r
             else strUnsignedDecimalLiteral trimmed)"

subsection \<open>The form\<close>

text \<open>
  What a form field holds: the text of an input or select, the File object of a file
  input, or \<open>undefined\<close> (a file input with no file chosen). \<open>toStringValue\<close> is the
  ToString that \<open>parseFloat\<close> applies to its argument; a key that is not in the map
  reads as \<open>undefined\<close>.
\<close>

datatype formvalue = Text jsstring | FileObject | UndefinedValue

fun toStringValue :: "formvalue option \<Rightarrow> jsstring" where
  "toStringValue None = lit ''undefined''"
| "toStringValue (Some UndefinedValue) = lit ''undefined''"
| "toStringValue (Some FileObject) = lit ''[object File]''"
| "toStringValue (Some (Text s)) = s"

record field =
  f_name :: jsstring
  f_label :: jsstring
  f_type :: jsstring

record disease =
  d_name :: jsstring
  d_fields :: "field list"

record 'p predict_result =
  pr_success :: bool
  pr_prediction :: "'p option"
  pr_error :: "jsstring option"

record 'p prediction_form =
  selectedDisease :: jsstring
  formData :: "jsstring \<rightharpoonup> formvalue"
  pf_loading :: bool
  diseaseInfo :: "jsstring \<rightharpoonup> disease"
  isLoadingInfo :: bool
  pf_error :: "jsstring option"
  predictionResult :: "'p option"

definition pf_initial :: "'p prediction_form" where
  "pf_initial = \<lparr> selectedDisease = lit ''anemia'', formData = Map.empty, pf_loading = False,
     diseaseInfo = Map.empty, isLoadingInfo = True, pf_error = None, predictionResult = None \<rparr>"

text \<open>The body of the effect that depends on \<open>selectedDisease\<close>.\<close>

definition resetForm :: "'p prediction_form \<Rightarrow> 'p prediction_form" where
  "resetForm s = s\<lparr>formData := Map.empty, predictionResult := None, pf_error := None\<rparr>"

text \<open>
  \<open>handleDiseaseSelect\<close> stores the disease; the effect runs after the render when the
  stored value differs from the one of the previous render.
\<close>

definition handleDiseaseSelect :: "jsstring \<Rightarrow> 'p prediction_form \<Rightarrow> 'p prediction_form" where
  "handleDiseaseSelect disease s =
     (let s1 = s\<lparr>selectedDisease := disease\<rparr>
      in if selectedDisease s1 \<noteq> selectedDisease s then resetForm s1 else s1)"

definition handleInputChange :: "jsstring \<Rightarrow> formvalue \<Rightarrow> 'p prediction_form \<Rightarrow> 'p prediction_form" where
  "handleInputChange fieldName v s = s\<lparr>formData := (formData s)(fieldName \<mapsto> v)\<rparr>"

text \<open>A sequence of value entries, one \<open>handleInputChange\<close> each.\<close>

fun enterValues :: "(jsstring \<times> formvalue) list \<Rightarrow> 'p prediction_form \<Rightarrow> 'p prediction_form" where
  "enterValues [] s = s"
| "enterValues ((fieldName, v) # rest) s = enterValues rest (handleInputChange fieldName v s)"

text \<open>The feature preparation of \<open>handleSubmit\<close>: \<open>parseFloat(formData[field.name]) || 0\<close>.\<close>

definition numValue :: "(jsstring \<rightharpoonup> formvalue) \<Rightarrow> field \<Rightarrow> jsnum" where
  "numValue fd fld = orElse (parseFloat (toStringValue (fd (f_name fld)))) (Finite 0)"

record 'p submit_effects =
  se_state :: "'p prediction_form"
  se_sent :: "(jsstring \<times> jsnum list) list"
  se_forwarded :: "'p list"

text \<open>
  \<open>handleSubmit\<close>. \<open>predictDisease\<close> is the endpoint, \<open>onResult\<close> tells whether the
  parent passed a callback. A disease that is not in the catalogue makes
  \<open>currentDisease.fields\<close> throw, which the \<open>catch\<close> turns into the error message
  before any request is sent. \<open>se_sent\<close> lists the requests, \<open>se_forwarded\<close> the
  results handed to the parent.
\<close>

definition responseError :: "'p predict_result \<Rightarrow> jsstring" where
  "responseError result =
     (case pr_error result of
        Some e \<Rightarrow> if e \<noteq> [] then e else lit ''Invalid prediction response''
      | None \<Rightarrow> lit ''Invalid prediction response'')"

definition handleSubmit ::
  "(jsstring \<Rightarrow> jsnum list \<Rightarrow> 'p predict_result outcome) \<Rightarrow> bool \<Rightarrow> 'p prediction_form \<Rightarrow>
   'p submit_effects" where
  "handleSubmit predictDisease onResult s =
     (let s1 = s\<lparr>pf_loading := True, pf_error := None, predictionResult := None\<rparr>;
          failed = s1\<lparr>pf_error := Some (lit ''Failed to get prediction. Please try again.''),
                      pf_loading := False\<rparr>
      in case diseaseInfo s1 (selectedDisease s1) of
           None \<Rightarrow> \<lparr> se_state = failed, se_sent = [], se_forwarded = [] \<rparr>
         | Some currentDisease \<Rightarrow>
             (let features = map (numValue (formData s1)) (d_fields currentDisease);
                  request = (selectedDisease s1, features)
              in (case predictDisease (selectedDisease s1) features of
                    Rejected \<Rightarrow> \<lparr> se_state = failed, se_sent = [request], se_forwarded = [] \<rparr>
                  | Resolved result \<Rightarrow>
                      (case (pr_success result, pr_prediction result) of
                         (True, Some predictionData) \<Rightarrow>
                           \<lparr> se_state = s1\<lparr>predictionResult := Some predictionData,
                                 pf_loading := False\<rparr>,
                             se_sent = [request],
                             se_forwarded = (if onResult then [predictionData] else []) \<rparr>
                       | _ \<Rightarrow>
                           \<lparr> se_state = s1\<lparr>pf_error := Some (responseError result),
                                 pf_loading := False\<rparr>,
                             se_sent = [request], se_forwarded = [] \<rparr>))))"

text \<open>Concrete data for the examples: one catalogue entry and an endpoint that is down.\<close>

definition anemiaCatalogue :: "jsstring \<rightharpoonup> disease" where
  "anemiaCatalogue = [lit ''anemia'' \<mapsto> \<lparr> d_name = lit ''Anemia'', d_fields =
      [\<lparr> f_name = lit ''hemoglobin'', f_label = lit ''Hemoglobin'', f_type = lit ''text'' \<rparr>,
       \<lparr> f_name = lit ''mch'', f_label = lit ''MCH'', f_type = lit ''number'' \<rparr>] \<rparr>]"

definition unreachable :: "jsstring \<Rightarrow> jsnum list \<Rightarrow> nat predict_result outcome" where
  "unreachable d fs = Rejected"

section \<open>DoctorDashboard and ConsultationManager\<close>

record consultation =
  c_id :: jsid
  patient_name :: jsstring
  requested_date :: jsstring
  c_status :: jsstring
  chat_room_id :: jsid

record doctor_stats =
  totalPatients :: nat
  todayAppointments :: nat
  pendingReviews :: nat
  completedConsultations :: nat

record 'k doctor_dashboard =
  dd_activeTab :: jsstring
  dd_consultations :: "consultation list"
  pendingCases :: "'k list"
  dd_loading :: bool
  dd_stats :: doctor_stats

text \<open>
  \<open>updateStats\<close>. Its two parameters default to the empty array when the caller passes
  \<open>undefined\<close> (here \<open>None\<close>). The Date object is a parameter of the model:
  \<open>newDate x\<close> is \<open>new Date(x)\<close>, \<open>now\<close> is \<open>new Date()\<close> and \<open>toDateString\<close> is
  the method of that name.
\<close>

definition updateStats ::
  "(jsstring \<Rightarrow> 't) \<Rightarrow> ('t \<Rightarrow> jsstring) \<Rightarrow> 't \<Rightarrow> consultation list option \<Rightarrow> 'k list option \<Rightarrow>
   'k doctor_dashboard \<Rightarrow> 'k doctor_dashboard" where
  "updateStats newDate toDateString now consultations cases s =
     (let cs = (case consultations of None \<Rightarrow> [] | Some l \<Rightarrow> l);
          ks = (case cases of None \<Rightarrow> [] | Some l \<Rightarrow> l);
          today = toDateString now;
          todayAppts = length (filter (\<lambda>c. toDateString (newDate (requested_date c)) = today) cs)
      in s\<lparr>dd_stats := \<lparr> totalPatients = length cs,
            todayAppointments = todayAppts,
            pendingReviews = length ks,
            completedConsultations = length (filter (\<lambda>c. c_status c = lit ''completed'') cs) \<rparr>\<rparr>)"

text \<open>The patch both components apply: \<open>c.id === consultationId ? {...c, status: newStatus} : c\<close>.\<close>

definition patchStatus :: "jsid \<Rightarrow> jsstring \<Rightarrow> consultation \<Rightarrow> consultation" where
  "patchStatus consultationId newStatus c =
     (if c_id c = consultationId then c\<lparr>c_status := newStatus\<rparr> else c)"

text \<open>
  \<open>handleStatusUpdate\<close> of the doctor dashboard. \<open>updateConsultationStatus\<close> is the
  endpoint; a resolved call carries the truth value of \<open>response.success\<close>. \<open>rendered\<close>
  is the state of the render whose handler runs (the statistics are computed from its
  lists), \<open>s\<close> the state the functional update \<open>setConsultations(prev => ...)\<close> finds.
\<close>

definition handleStatusUpdate ::
  "(jsid \<Rightarrow> jsstring \<Rightarrow> bool outcome) \<Rightarrow> (jsstring \<Rightarrow> 't) \<Rightarrow> ('t \<Rightarrow> jsstring) \<Rightarrow> 't \<Rightarrow>
   jsid \<Rightarrow> jsstring \<Rightarrow> 'k doctor_dashboard \<Rightarrow> 'k doctor_dashboard \<Rightarrow> 'k doctor_dashboard" where
  "handleStatusUpdate updateConsultationStatus newDate toDateString now consultationId newStatus
       rendered s =
     (case updateConsultationStatus consultationId newStatus of
        Rejected \<Rightarrow> s
      | Resolved success \<Rightarrow>
          if success
          then (let s1 = s\<lparr>dd_consultations :=
                            map (patchStatus consultationId newStatus) (dd_consultations s)\<rparr>;
                    updatedConsultations =
                      map (patchStatus consultationId newStatus) (dd_consultations rendered)
                in updateStats newDate toDateString now (Some updatedConsultations)
                     (Some (pendingCases rendered)) s1)
          else s)"

record consultation_manager =
  cm_consultations :: "consultation list"
  cm_loading :: bool
  updatingStatus :: "jsid \<rightharpoonup> bool"

text \<open>
  \<open>handleStatusUpdate\<close> of the consultation manager: a falsy id returns before the
  endpoint is called; otherwise the \<open>updatingStatus\<close> entry of the id is raised for the
  time of the call and lowered in the \<open>finally\<close> block.
\<close>

definition cm_handleStatusUpdate ::
  "(jsid \<Rightarrow> jsstring \<Rightarrow> bool outcome) \<Rightarrow> jsid \<Rightarrow> jsstring \<Rightarrow> consultation_manager \<Rightarrow>
   consultation_manager" where
  "cm_handleStatusUpdate updateConsultationStatus consultationId newStatus s =
     (if \<not> truthy consultationId then s
      else
        let s1 = s\<lparr>updatingStatus := (updatingStatus s)(consultationId \<mapsto> True)\<rparr>;
            s2 = (case updateConsultationStatus consultationId newStatus of
                    Rejected \<Rightarrow> s1
                  | Resolved success \<Rightarrow>
                      if success
                      then s1\<lparr>cm_consultations :=
                              map (patchStatus consultationId newStatus) (cm_consultations s1)\<rparr>
                      else s1)
        in s2\<lparr>updatingStatus := (updatingStatus s2)(consultationId \<mapsto> False)\<rparr>)"

text \<open>Concrete data for the examples.\<close>

definition dayOf :: "jsstring \<Rightarrow> jsstring" where
  "dayOf stamp = take 10 stamp"

definition visits :: "consultation list" where
  "visits =
     [\<lparr> c_id = Num 1, patient_name = lit ''Ann'', requested_date = lit ''2026-11-02T09:00'',
         c_status = lit ''pending'', chat_room_id = Str (lit ''room-1'') \<rparr>,
      \<lparr> c_id = Num 2, patient_name = lit ''Bob'', requested_date = lit ''2026-11-03T10:30'',
         c_status = lit ''confirmed'', chat_room_id = Undefined \<rparr>,
      \<lparr> c_id = Num 3, patient_name = lit ''Cy'', requested_date = lit ''2026-11-02T16:15'',
         c_status = lit ''completed'', chat_room_id = Str (lit ''room-3'') \<rparr>]"

definition dd_initial :: "nat doctor_dashboard" where
  "dd_initial = \<lparr> dd_activeTab = lit ''consultations'', dd_consultations = [], pendingCases = [],
     dd_loading = True,
     dd_stats = \<lparr> totalPatients = 0, todayAppointments = 0, pendingReviews = 0,
        completedConsultations = 0 \<rparr> \<rparr>"

definition accepting :: "jsid \<Rightarrow> jsstring \<Rightarrow> bool outcome" where
  "accepting consultationId newStatus = Resolved True"

definition refusing :: "jsid \<Rightarrow> jsstring \<Rightarrow> bool outcome" where
  "refusing consultationId newStatus = Resolved False"

section \<open>CaseReview\<close>

record review_form =
  diagnosis :: jsstring
  severity :: jsstring
  recommendations :: "jsstring list"
  follow_up_required :: bool
  medications :: "jsstring list"
  lifestyle_changes :: "jsstring list"

record review_result =
  rr_success :: bool
  rr_error :: "jsstring option"

record case_review =
  reviewForm :: review_form
  cr_loading :: bool
  cr_error :: "jsstring option"

record review_effects =
  re_state :: case_review
  re_posted :: "(jsid \<times> review_form) list"
  re_onReviewed :: nat

text \<open>A string is truthy when it is not empty: \<open>filter(r => r.trim())\<close> keeps those.\<close>

definition nonBlank :: "jsstring \<Rightarrow> bool" where
  "nonBlank r = (trim r \<noteq> [])"

definition cleanedForm :: "review_form \<Rightarrow> review_form" where
  "cleanedForm f = f\<lparr>recommendations := filter nonBlank (recommendations f),
                      medications := filter nonBlank (medications f),
                      lifestyle_changes := filter nonBlank (lifestyle_changes f)\<rparr>"

text \<open>
  \<open>handleSubmit\<close> of the case review. \<open>reviewCase\<close> is the endpoint, \<open>caseId\<close> is
  \<open>caseData._id\<close>. \<open>re_posted\<close> lists the forms posted, \<open>re_onReviewed\<close> counts the calls
  of the parent's callback.
\<close>

definition cr_handleSubmit ::
  "(jsid \<Rightarrow> review_form \<Rightarrow> review_result outcome) \<Rightarrow> jsid \<Rightarrow> case_review \<Rightarrow> review_effects" where
  "cr_handleSubmit reviewCase caseId s =
     (let s1 = s\<lparr>cr_loading := True, cr_error := Some []\<rparr>;
          cleaned = cleanedForm (reviewForm s1)
      in case reviewCase caseId cleaned of
           Rejected \<Rightarrow>
             \<lparr> re_state = s1\<lparr>cr_error := Some (lit ''Failed to submit review. Please try again.''),
                   cr_loading := False\<rparr>,
               re_posted = [(caseId, cleaned)], re_onReviewed = 0 \<rparr>
         | Resolved result \<Rightarrow>
             if rr_success result
             then \<lparr> re_state = s1\<lparr>cr_loading := False\<rparr>,
                    re_posted = [(caseId, cleaned)], re_onReviewed = 1 \<rparr>
             else \<lparr> re_state = s1\<lparr>cr_error := rr_error result, cr_loading := False\<rparr>,
                    re_posted = [(caseId, cleaned)], re_onReviewed = 0 \<rparr>)"

definition cr_initial :: case_review where
  "cr_initial = \<lparr> reviewForm = \<lparr> diagnosis = [], severity = lit ''mild'', recommendations = [[]],
       follow_up_required = False, medications = [[]], lifestyle_changes = [[]] \<rparr>,
     cr_loading = False, cr_error = Some [] \<rparr>"

definition draftReview :: case_review where
  "draftReview = cr_initial\<lparr>reviewForm := \<lparr> diagnosis = lit ''Iron deficiency'',
       severity = lit ''moderate'',
       recommendations = [lit ''Rest'', lit ''   '', [], lit ''Recheck in 4 weeks''],
       follow_up_required = True, medications = [[], lit ''Iron 65mg''],
       lifestyle_changes = [lit '' ''] \<rparr>\<rparr>"

definition reviewAccepted :: "jsid \<Rightarrow> review_form \<Rightarrow> review_result outcome" where
  "reviewAccepted caseId f = Resolved \<lparr> rr_success = True, rr_error = None \<rparr>"

section \<open>DoctorPatientChat\<close>

record typing_data =
  user_id :: jsid
  typing :: bool

record 'm chat =
  messages :: "'m list"
  newMessage :: jsstring
  isTyping :: bool
  typingUsers :: "typing_data list"
  socket :: bool
  chat_loading :: bool
  onlineUsers :: "jsid list"

definition chat_initial :: "'m chat" where
  "chat_initial = \<lparr> messages = [], newMessage = [], isTyping = False, typingUsers = [],
     socket = False, chat_loading = True, onlineUsers = [] \<rparr>"

text \<open>
  What the component asks of the outside: the send endpoint (room, content, type, file
  URL), the upload endpoint (file name, room) and the \<open>typing\<close> event it emits.
\<close>

datatype chat_call =
    SendMessage jsid jsstring jsstring "jsstring option"
  | UploadChatFile jsstring jsid
  | EmitTyping jsid bool

record upload_result =
  ur_success :: bool
  ur_filename :: jsstring
  ur_file_url :: jsstring

text \<open>The handlers of the real-time events. \<open>me\<close> is \<open>user.id\<close>.\<close>

definition onNewMessage :: "'m \<Rightarrow> 'm chat \<Rightarrow> 'm chat" where
  "onNewMessage message s = s\<lparr>messages := messages s @ [message]\<rparr>"

definition onUserTyping :: "jsid \<Rightarrow> typing_data \<Rightarrow> 'm chat \<Rightarrow> 'm chat" where
  "onUserTyping me data s =
     (if user_id data \<noteq> me
      then s\<lparr>typingUsers :=
             (if typing data
              then filter (\<lambda>u. user_id u \<noteq> user_id data) (typingUsers s) @ [data]
              else filter (\<lambda>u. user_id u \<noteq> user_id data) (typingUsers s))\<rparr>
      else s)"

definition onUserJoined :: "jsid \<Rightarrow> 'm chat \<Rightarrow> 'm chat" where
  "onUserJoined joined s = s\<lparr>onlineUsers := onlineUsers s @ [joined]\<rparr>"

text \<open>
  What the typing handler maintains: no entry of the local user, one entry per user at
  most.
\<close>

definition typingInvariant :: "jsid \<Rightarrow> typing_data list \<Rightarrow> bool" where
  "typingInvariant me users = (me \<notin> user_id ` set users \<and> distinct (map user_id users))"

text \<open>A sequence of \<open>user_typing\<close> events, handled in order of arrival.\<close>

fun typingEvents :: "jsid \<Rightarrow> typing_data list \<Rightarrow> 'm chat \<Rightarrow> 'm chat" where
  "typingEvents me [] s = s"
| "typingEvents me (data # rest) s = typingEvents me rest (onUserTyping me data s)"

text \<open>
  \<open>loadChatMessages\<close>: with a room id and a successful response the fetched history
  replaces the list; \<open>room\<close> is \<open>consultation.chat_room_id\<close>.
\<close>

definition loadChatMessages :: "(jsid \<Rightarrow> (bool \<times> 'm list) outcome) \<Rightarrow> jsid \<Rightarrow> 'm chat \<Rightarrow> 'm chat" where
  "loadChatMessages getChatMessages room s =
     (let s1 = s\<lparr>chat_loading := True\<rparr>;
          s2 = (if truthy room
                then (case getChatMessages room of
                        Rejected \<Rightarrow> s1
                      | Resolved (success, history) \<Rightarrow>
                          if success then s1\<lparr>messages := history\<rparr> else s1)
                else s1)
      in s2\<lparr>chat_loading := False\<rparr>)"

definition handleTyping :: "jsid \<Rightarrow> bool \<Rightarrow> 'm chat \<Rightarrow> 'm chat \<times> chat_call list" where
  "handleTyping room t s =
     (s\<lparr>isTyping := t\<rparr>, if socket s \<and> truthy room then [EmitTyping room t] else [])"

text \<open>
  \<open>handleSendMessage\<close>: nothing happens when the trimmed input is empty or the room id
  is falsy; otherwise the trimmed text is sent, and a successful response clears the
  input and calls \<open>handleTyping(false)\<close>. The second component lists the calls made.
\<close>

definition handleSendMessage ::
  "(jsid \<Rightarrow> jsstring \<Rightarrow> jsstring \<Rightarrow> bool outcome) \<Rightarrow> jsid \<Rightarrow> 'm chat \<Rightarrow> 'm chat \<times> chat_call list" where
  "handleSendMessage sendMessage room s =
     (if trim (newMessage s) = [] \<or> \<not> truthy room then (s, [])
      else
        let content = trim (newMessage s);
            call = SendMessage room content (lit ''text'') None
        in case sendMessage room content (lit ''text'') of
             Rejected \<Rightarrow> (s, [call])
           | Resolved success \<Rightarrow>
               if success
               then (let (s2, emitted) = handleTyping room False (s\<lparr>newMessage := []\<rparr>)
                     in (s2, call # emitted))
               else (s, [call]))"

text \<open>
  \<open>handleFileUpload\<close>: \<open>file\<close> is \<open>event.target.files[0]\<close> (its name, or nothing). The
  follow-up message starts with the paperclip sign, two code units in UTF-16. No state
  of the component changes.
\<close>

definition handleFileUpload ::
  "(jsstring \<Rightarrow> jsid \<Rightarrow> upload_result outcome) \<Rightarrow> jsstring option \<Rightarrow> jsid \<Rightarrow> 'm chat \<Rightarrow>
   'm chat \<times> chat_call list" where
  "handleFileUpload uploadChatFile file room s =
     (case file of
        None \<Rightarrow> (s, [])
      | Some f \<Rightarrow>
          if \<not> truthy room then (s, [])
          else (case uploadChatFile f room of
                  Rejected \<Rightarrow> (s, [UploadChatFile f room])
                | Resolved uploadResponse \<Rightarrow>
                    if ur_success uploadResponse
                    then (s, [UploadChatFile f room,
                              SendMessage room
                                ([0xD83D, 0xDCCE] @ lit '' Medical document: '' @ ur_filename uploadResponse)
                                (lit ''file'') (Some (ur_file_url uploadResponse))])
                    else (s, [UploadChatFile f room])))"

text \<open>Concrete data for the examples.\<close>

definition delivered :: "jsid \<Rightarrow> jsstring \<Rightarrow> jsstring \<Rightarrow> bool outcome" where
  "delivered room content kind = Resolved True"

definition composing :: "nat chat" where
  "composing = chat_initial\<lparr>messages := [7], newMessage := lit '' hello '', isTyping := True,
     socket := True, chat_loading := False\<rparr>"

definition idle :: "nat chat" where
  "idle = chat_initial\<lparr>messages := [7], newMessage := [0x20, 0x09, 0x3000], isTyping := True,
     socket := True, chat_loading := False\<rparr>"

section \<open>Properties of the shared values\<close>

lemma unat_of_char: "unat (of_char c :: 16 word) = of_char c"
proof -
  have a: "(of_char c :: 16 word) = of_nat (of_char c)" by (simp add: of_nat_of_char)
  have "(of_char c :: nat) < 256" by simp
  also have "(256 :: nat) < 2 ^ 16" by simp
  finally have "(of_char c :: nat) < 2 ^ 16" .
  then show ?thesis unfolding a by (simp add: unat_of_nat)
qed

lemma lit_eq_iff: "lit a = lit b \<longleftrightarrow> a = b"
proof -
  have "inj (of_char :: char \<Rightarrow> 16 word)"
  proof (rule injI)
    fix c d :: char assume "(of_char c :: 16 word) = of_char d"
    then have "unat (of_char c :: 16 word) = unat (of_char d :: 16 word)" by simp
    then show "c = d" by (simp add: unat_of_char)
  qed
  then show ?thesis unfolding lit_def by simp
qed

section \<open>Properties of PatientDashboard\<close>

lemma rhe_of_int: "roundHalfEven (of_int k) = k"
  by (simp add: roundHalfEven_def)

lemma rhe_floor_le: "\<lfloor>y\<rfloor> \<le> roundHalfEven y"
  by (simp add: roundHalfEven_def Let_def)

lemma rhe_le_floor_Suc: "roundHalfEven y \<le> \<lfloor>y\<rfloor> + 1"
  by (simp add: roundHalfEven_def Let_def)

lemma rhe_le:
  assumes "y \<le> of_int N"
  shows "roundHalfEven y \<le> N"
proof (cases "\<lfloor>y\<rfloor> = N")
  case True
  then have "of_int N \<le> y" using of_int_floor_le [of y] by simp
  with assms have "y = of_int N" by simp
  then show ?thesis by (simp add: rhe_of_int)
next
  case False
  from assms have "\<lfloor>y\<rfloor> \<le> N" by (simp add: floor_le_iff)
  with False have "\<lfloor>y\<rfloor> + 1 \<le> N" by simp
  with rhe_le_floor_Suc [of y] show ?thesis by simp
qed

lemma rhe_ge:
  assumes "of_int N \<le> y"
  shows "N \<le> roundHalfEven y"
proof -
  from assms have "N \<le> \<lfloor>y\<rfloor>" by (simp add: le_floor_iff)
  with rhe_floor_le [of y] show ?thesis by simp
qed


lemma subnormalScale_pos: "0 < subnormalScale"
  by (simp add: subnormalScale_def)

lemma subnormalScale_powi: "2 powi (- 1074) = 1 / subnormalScale"
  unfolding subnormalScale_def by (simp only: power_int_minus_divide power_int_numeral)

lemma powi_split_scale: "1 \<le> b \<Longrightarrow> (2::rat) powi (b - 1074) = 2 ^ nat b / subnormalScale"
proof -
  assume b: "1 \<le> b"
  have "(2::rat) powi (b - 1074) = 2 powi b / 2 powi 1074" by (rule power_int_diff) simp
  also have "(2::rat) powi b = 2 ^ nat b" using b by (simp add: power_int_def)
  also have "(2::rat) powi 1074 = subnormalScale"
    unfolding subnormalScale_def by (simp only: power_int_numeral)
  finally show ?thesis .
qed

lemma binade_small:
  assumes "0 \<le> x" "x < 1 / subnormalScale"
  shows "binade x = - 1075"
proof -
  from assms(2) subnormalScale_pos have "x * subnormalScale < 1" by (simp add: pos_less_divide_eq)
  moreover from assms(1) subnormalScale_pos have "0 \<le> x * subnormalScale" by simp
  ultimately have "\<lfloor>x * subnormalScale\<rfloor> = 0" by (simp add: floor_eq_iff)
  with assms(1) show ?thesis by (simp add: binade_def)
qed

lemma binade_bounds:
  assumes "1 / subnormalScale \<le> x"
  shows "2 powi binade x \<le> x \<and> x < 2 powi (binade x + 1)"
proof -
  define y where "y = x * subnormalScale"
  define k where "k = \<lfloor>y\<rfloor>"
  define b where "b = bitlen k"
  have "0 < 1 / subnormalScale" using subnormalScale_pos by simp
  with assms have xpos: "0 < x" by linarith
  from assms subnormalScale_pos have y1: "1 \<le> y" by (simp add: y_def pos_divide_le_eq)
  then have k1: "0 < k" by (simp add: k_def)
  from bitlen_bounds [OF k1] have lo: "2 ^ nat (b - 1) \<le> k" and hi: "k < 2 ^ nat b"
    by (simp_all add: b_def)
  from k1 hi have b1: "1 \<le> b"
    by (cases "b \<le> 0") simp_all
  have ky: "of_int k \<le> y" "y < of_int k + 1"
    using floor_correct [of y] by (simp_all add: k_def)
  have bx: "binade x = b - 1075" using xpos by (simp add: binade_def b_def k_def y_def)
  have "(of_int (2 ^ nat (b - 1)) :: rat) \<le> of_int k" using lo by (simp only: of_int_le_iff)
  then have "(2::rat) ^ nat (b - 1) \<le> of_int k" by simp
  then have l2: "(2::rat) ^ nat (b - 1) \<le> y" using ky(1) by (rule order_trans)
  from hi have "k + 1 \<le> 2 ^ nat b" by simp
  then have "(of_int (k + 1) :: rat) \<le> of_int (2 ^ nat b)" by (simp only: of_int_le_iff)
  then have "of_int k + 1 \<le> (2::rat) ^ nat b" by simp
  with ky(2) have h2: "y < (2::rat) ^ nat b" by (rule less_le_trans)
  have p1: "(2::rat) powi (b - 1075) = 2 ^ nat (b - 1) / subnormalScale"
  proof (cases "b = 1")
    case True
    then have "b - 1075 = - 1074" by simp
    then have "(2::rat) powi (b - 1075) = 2 powi (- 1074)" by (simp only:)
    also have "\<dots> = 1 / subnormalScale" by (rule subnormalScale_powi)
    also have "\<dots> = 2 ^ nat (b - 1) / subnormalScale" using True by simp
    finally show ?thesis .
  next
    case False
    with b1 have "1 \<le> b - 1" by simp
    from powi_split_scale [OF this] show ?thesis by (simp add: algebra_simps)
  qed
  have p2: "(2::rat) powi (b - 1075 + 1) = 2 ^ nat b / subnormalScale"
    using powi_split_scale [OF b1] by simp
  have xy: "x = y / subnormalScale" using subnormalScale_pos by (simp add: y_def)
  from l2 subnormalScale_pos have "2 ^ nat (b - 1) / subnormalScale \<le> x"
    unfolding xy by (simp add: divide_right_mono)
  moreover from h2 subnormalScale_pos have "x < 2 ^ nat b / subnormalScale"
    unfolding xy by (simp add: divide_strict_right_mono)
  ultimately show ?thesis unfolding bx p1 p2 by simp
qed


lemma binade_le_52:
  assumes "0 \<le> x" "x < 2 ^ 53"
  shows "binade x \<le> 52"
proof (cases "x < 1 / subnormalScale")
  case True
  with assms(1) show ?thesis by (simp add: binade_small)
next
  case False
  then have "1 / subnormalScale \<le> x" by simp
  from binade_bounds [OF this] have "2 powi binade x \<le> x" by simp
  with assms(2) have lt: "(2::rat) powi binade x < 2 powi 53" by simp
  show ?thesis
  proof (rule ccontr)
    assume "\<not> binade x \<le> 52"
    then have "(2::rat) powi 53 \<le> 2 powi binade x" by (intro power_int_increasing) simp_all
    with lt show False by simp
  qed
qed

lemma ulp_pos: "0 < ulp x"
  by (simp add: ulp_def)

lemma ulp_reciprocal:
  assumes "0 \<le> x" "x < 2 ^ 53"
  shows "\<exists>j::nat. ulp x = 1 / 2 ^ j"
proof -
  define k where "k = ulpExponent x"
  from binade_le_52 [OF assms] have "k \<le> 0" by (simp add: k_def ulpExponent_def)
  then have "(2::rat) powi k = 1 / 2 ^ nat (- k)"
    by (cases "k = 0") (simp_all add: power_int_def field_simps)
  then show ?thesis unfolding ulp_def k_def [symmetric] by blast
qed



lemma toDouble_le_int:
  assumes "0 \<le> x" "x < 2 ^ 53" "x \<le> of_int n"
  shows "toDouble x \<le> of_int n"
proof -
  from ulp_reciprocal [OF assms(1,2)] obtain j :: nat where u: "ulp x = 1 / 2 ^ j" by blast
  have "x / ulp x = x * 2 ^ j" by (simp add: u)
  also have "\<dots> \<le> of_int n * 2 ^ j" using assms(3) by simp
  also have "\<dots> = of_int (n * 2 ^ j)" by simp
  finally have "roundHalfEven (x / ulp x) \<le> n * 2 ^ j" by (rule rhe_le)
  then have "(of_int (roundHalfEven (x / ulp x)) :: rat) \<le> of_int (n * 2 ^ j)"
    by (simp only: of_int_le_iff)
  then have "of_int (roundHalfEven (x / ulp x)) * ulp x \<le> of_int (n * 2 ^ j) * ulp x"
    using ulp_pos [of x] by (simp only: mult_le_cancel_right_pos)
  then show ?thesis by (simp add: toDouble_def u)
qed

lemma toDouble_ge_int:
  assumes "0 \<le> x" "x < 2 ^ 53" "of_int n \<le> x"
  shows "of_int n \<le> toDouble x"
proof -
  from ulp_reciprocal [OF assms(1,2)] obtain j :: nat where u: "ulp x = 1 / 2 ^ j" by blast
  have "of_int (n * 2 ^ j) = of_int n * (2::rat) ^ j" by simp
  also have "\<dots> \<le> x * 2 ^ j" using assms(3) by simp
  also have "\<dots> = x / ulp x" by (simp add: u)
  finally have "n * 2 ^ j \<le> roundHalfEven (x / ulp x)" by (rule rhe_ge)
  then have "(of_int (n * 2 ^ j) :: rat) \<le> of_int (roundHalfEven (x / ulp x))"
    by (simp only: of_int_le_iff)
  then have "of_int (n * 2 ^ j) * ulp x \<le> of_int (roundHalfEven (x / ulp x)) * ulp x"
    using ulp_pos [of x] by (simp only: mult_le_cancel_right_pos)
  then show ?thesis by (simp add: toDouble_def u)
qed


lemma toDouble_of_int:
  assumes "0 \<le> n" "n < 2 ^ 53"
  shows "toDouble (of_int n) = of_int n"
proof -
  have a: "(0::rat) \<le> of_int n" using assms(1) by simp
  have "(of_int n :: rat) < of_int (2 ^ 53)" using assms(2) by (simp only: of_int_less_iff)
  then have b: "(of_int n :: rat) < 2 ^ 53" by simp
  from toDouble_le_int [OF a b, of n] toDouble_ge_int [OF a b, of n] show ?thesis by simp
qed











text \<open>
  C10. The tab switch sets the active tab to the requested id, clears the displayed
  prediction result exactly when the target is not the tab \<open>predict\<close>, keeps the result
  when it is, and changes neither the statistics nor the two loading flags.
\<close>

theorem C10_handleTabChange_frame:
  "pd_activeTab (handleTabChange tabId s) = tabId
   \<and> pd_currentResult (handleTabChange tabId s)
       = (if tabId = lit ''predict'' then pd_currentResult s else None)
   \<and> pd_stats (handleTabChange tabId s) = pd_stats s
   \<and> pd_loading (handleTabChange tabId s) = pd_loading s
   \<and> pd_statsLoading (handleTabChange tabId s) = pd_statsLoading s"
  by (simp add: handleTabChange_def Let_def)

theorem C10_handleTabChange_witness:
  "pd_currentResult (handleTabChange (lit ''history'')
      ((pd_initial :: nat patient_dashboard)\<lparr>pd_currentResult := Some 1\<rparr>)) = None
   \<and> pd_currentResult (handleTabChange (lit ''predict'')
      ((pd_initial :: nat patient_dashboard)\<lparr>pd_currentResult := Some 1\<rparr>)) = Some 1"
  using C10_handleTabChange_frame [of "lit ''history''" "(pd_initial :: nat patient_dashboard)\<lparr>pd_currentResult := Some 1\<rparr>"]
    C10_handleTabChange_frame [of "lit ''predict''" "(pd_initial :: nat patient_dashboard)\<lparr>pd_currentResult := Some 1\<rparr>"]
  by (simp add: lit_def)










section \<open>Properties of PredictionForm\<close>

lemma parseFloat_blank:
  assumes "\<forall>c\<in>set t. isWhiteSpace c"
  shows "parseFloat t = NaN"
proof -
  from assms have "trimStart t = []" by (simp add: trimStart_def)
  then show ?thesis by (simp add: parseFloat_def)
qed

lemma parseFloat_undefined: "parseFloat (lit ''undefined'') = NaN"
  by (simp add: parseFloat_def lit_def trimStart_def isWhiteSpace_def
      strUnsignedDecimalLiteral_def isDigit_def Let_def)

lemma parseFloat_file: "parseFloat (lit ''[object File]'') = NaN"
  by (simp add: parseFloat_def lit_def trimStart_def isWhiteSpace_def
      strUnsignedDecimalLiteral_def isDigit_def Let_def)

lemma parseFloat_Infinity: "parseFloat (lit ''Infinity'') = PosInfinity"
  by (simp add: parseFloat_def lit_def trimStart_def isWhiteSpace_def
      strUnsignedDecimalLiteral_def isDigit_def Let_def)

lemma parseFloat_12_5: "parseFloat (lit ''12.5'') = Finite (25 / 2)"
  by (simp add: parseFloat_def lit_def trimStart_def isWhiteSpace_def
      strUnsignedDecimalLiteral_def isDigit_def Let_def roundDouble_def decimalValue_def
      digitsValue_def exponentPart_def)

lemma parseFloat_space: "parseFloat (lit '' '') = NaN"
  by (simp add: parseFloat_blank lit_def isWhiteSpace_def)

lemma orElse_zero_cases:
  "orElse x (Finite 0) = (if x = NaN \<or> x = Finite 0 then Finite 0 else x)"
  by (simp add: orElse_def numTruthy_def)

lemma orElse_zero_not_NaN: "orElse x (Finite 0) \<noteq> NaN"
  by (simp add: orElse_def numTruthy_def)

lemma orElse_zero_finite:
  "isFinite (orElse x (Finite 0)) \<longleftrightarrow> x \<noteq> PosInfinity \<and> x \<noteq> NegInfinity"
  by (cases x) (simp_all add: orElse_def numTruthy_def)

lemma numValue_missing: "fd (f_name fld) = None \<Longrightarrow> numValue fd fld = Finite 0"
  by (simp add: numValue_def parseFloat_undefined orElse_def numTruthy_def)

lemma numValue_blank:
  "fd (f_name fld) = Some (Text t) \<Longrightarrow> \<forall>c\<in>set t. isWhiteSpace c \<Longrightarrow> numValue fd fld = Finite 0"
  by (simp add: numValue_def parseFloat_blank orElse_def numTruthy_def)

lemma numValue_unparseable:
  "parseFloat (toStringValue (fd (f_name fld))) = NaN \<Longrightarrow> numValue fd fld = Finite 0"
  by (simp add: numValue_def orElse_def numTruthy_def)

lemma handleSubmit_sent:
  "se_sent (handleSubmit predictDisease onResult s) =
     (case diseaseInfo s (selectedDisease s) of
        None \<Rightarrow> []
      | Some cd \<Rightarrow> [(selectedDisease s, map (numValue (formData s)) (d_fields cd))])"
  by (simp add: handleSubmit_def Let_def split: option.splits outcome.splits bool.splits)

lemma enterValues_selectedDisease: "selectedDisease (enterValues es s) = selectedDisease s"
  by (induction es s rule: enterValues.induct) (simp_all add: handleInputChange_def)

lemma handleDiseaseSelect_selectedDisease: "selectedDisease (handleDiseaseSelect d s) = d"
  by (simp add: handleDiseaseSelect_def resetForm_def Let_def)

lemma handleDiseaseSelect_resets:
  "selectedDisease s \<noteq> d \<Longrightarrow> formData (handleDiseaseSelect d s) = Map.empty"
  by (auto simp: handleDiseaseSelect_def resetForm_def Let_def)

text \<open>
  C3, as the specification states it: every entry of the feature vector is a finite
  number. With the text \<open>Infinity\<close> in the first field of the two-field schema the request
  carries a first entry that is not finite.
\<close>

theorem C3_features_finite_counterexample:
  "map (map isFinite \<circ> snd)
     (se_sent (handleSubmit unreachable True
        ((pf_initial :: nat prediction_form)\<lparr>diseaseInfo := anemiaCatalogue,
           formData := [lit ''hemoglobin'' \<mapsto> Text (lit ''Infinity'')]\<rparr>)))
   = [[False, True]]"
  by (simp add: handleSubmit_sent pf_initial_def anemiaCatalogue_def numValue_def
      parseFloat_Infinity parseFloat_undefined orElse_def numTruthy_def lit_eq_iff)

text \<open>
  C3, amended. A submission for a disease that is in the catalogue sends exactly one
  request; its feature vector has the length of the disease's field schema; entry \<open>i\<close> is
  \<open>parseFloat\<close> of the form value of field \<open>i\<close>, with NaN and zero replaced by 0; no entry
  is NaN; an entry is finite unless the form value parses to an infinity; and a missing,
  blank or unparseable value gives 0. A submission for a disease that is not in the
  catalogue sends nothing.
\<close>

theorem C3_handleSubmit_features:
  "(case diseaseInfo s (selectedDisease s) of
      None \<Rightarrow> se_sent (handleSubmit predictDisease onResult s) = []
    | Some cd \<Rightarrow>
        (\<exists>features.
           se_sent (handleSubmit predictDisease onResult s) = [(selectedDisease s, features)]
         \<and> length features = length (d_fields cd)
         \<and> (\<forall>i < length features.
              let v = formData s (f_name (d_fields cd ! i));
                  x = parseFloat (toStringValue v)
              in features ! i = (if x = NaN \<or> x = Finite 0 then Finite 0 else x)
               \<and> features ! i \<noteq> NaN
               \<and> (isFinite (features ! i) \<longleftrightarrow> x \<noteq> PosInfinity \<and> x \<noteq> NegInfinity)
               \<and> (v = None \<or> (\<exists>t. v = Some (Text t) \<and> (\<forall>c\<in>set t. isWhiteSpace c)) \<or> x = NaN
                    \<longrightarrow> features ! i = Finite 0))))"
proof (cases "diseaseInfo s (selectedDisease s)")
  case None
  then show ?thesis by (simp add: handleSubmit_sent)
next
  case (Some cd)
  let ?fs = "map (numValue (formData s)) (d_fields cd)"
  have sent: "se_sent (handleSubmit predictDisease onResult s) = [(selectedDisease s, ?fs)]"
    using Some by (simp add: handleSubmit_sent)
  have entries: "\<forall>i < length ?fs.
      let v = formData s (f_name (d_fields cd ! i));
          x = parseFloat (toStringValue v)
      in ?fs ! i = (if x = NaN \<or> x = Finite 0 then Finite 0 else x)
       \<and> ?fs ! i \<noteq> NaN
       \<and> (isFinite (?fs ! i) \<longleftrightarrow> x \<noteq> PosInfinity \<and> x \<noteq> NegInfinity)
       \<and> (v = None \<or> (\<exists>t. v = Some (Text t) \<and> (\<forall>c\<in>set t. isWhiteSpace c)) \<or> x = NaN
            \<longrightarrow> ?fs ! i = Finite 0)"
  proof (intro allI impI)
    fix i assume "i < length ?fs"
    then have i: "i < length (d_fields cd)" by simp
    let ?fld = "d_fields cd ! i"
    have nth: "?fs ! i = numValue (formData s) ?fld" using i by simp
    have a: "numValue (formData s) ?fld =
        (if parseFloat (toStringValue (formData s (f_name ?fld))) = NaN
            \<or> parseFloat (toStringValue (formData s (f_name ?fld))) = Finite 0
         then Finite 0 else parseFloat (toStringValue (formData s (f_name ?fld))))"
      unfolding numValue_def by (rule orElse_zero_cases)
    have b: "numValue (formData s) ?fld \<noteq> NaN"
      unfolding numValue_def by (rule orElse_zero_not_NaN)
    have c: "isFinite (numValue (formData s) ?fld) \<longleftrightarrow>
        parseFloat (toStringValue (formData s (f_name ?fld))) \<noteq> PosInfinity
        \<and> parseFloat (toStringValue (formData s (f_name ?fld))) \<noteq> NegInfinity"
      unfolding numValue_def by (rule orElse_zero_finite)
    have d: "formData s (f_name ?fld) = None
        \<or> (\<exists>t. formData s (f_name ?fld) = Some (Text t) \<and> (\<forall>c\<in>set t. isWhiteSpace c))
        \<or> parseFloat (toStringValue (formData s (f_name ?fld))) = NaN
        \<longrightarrow> numValue (formData s) ?fld = Finite 0"
      using numValue_missing numValue_blank numValue_unparseable by blast
    show "let v = formData s (f_name (d_fields cd ! i));
              x = parseFloat (toStringValue v)
          in ?fs ! i = (if x = NaN \<or> x = Finite 0 then Finite 0 else x)
           \<and> ?fs ! i \<noteq> NaN
           \<and> (isFinite (?fs ! i) \<longleftrightarrow> x \<noteq> PosInfinity \<and> x \<noteq> NegInfinity)
           \<and> (v = None \<or> (\<exists>t. v = Some (Text t) \<and> (\<forall>c\<in>set t. isWhiteSpace c)) \<or> x = NaN
                \<longrightarrow> ?fs ! i = Finite 0)"
      unfolding Let_def nth using a b c d by blast
  qed
  have "length ?fs = length (d_fields cd)" by simp
  with sent entries show ?thesis
    unfolding Some option.case by blast
qed

theorem C3_handleSubmit_features_witness:
  "se_sent (handleSubmit unreachable True
      ((pf_initial :: nat prediction_form)\<lparr>diseaseInfo := anemiaCatalogue,
         formData := [lit ''hemoglobin'' \<mapsto> Text (lit ''12.5''), lit ''mch'' \<mapsto> Text (lit '' '')]\<rparr>))
   = [(lit ''anemia'', [Finite (25 / 2), Finite 0])]"
  using C3_handleSubmit_features [where s =
      "(pf_initial :: nat prediction_form)\<lparr>diseaseInfo := anemiaCatalogue,
         formData := [lit ''hemoglobin'' \<mapsto> Text (lit ''12.5''), lit ''mch'' \<mapsto> Text (lit '' '')]\<rparr>"
      and predictDisease = unreachable and onResult = True]
  by (simp add: handleSubmit_sent pf_initial_def anemiaCatalogue_def numValue_def
      parseFloat_12_5 parseFloat_space orElse_def numTruthy_def lit_eq_iff)

text \<open>
  C4. Select disease A, enter any sequence of field values, select another disease B and
  select A again: the per-field value map is empty, whatever was entered under A.
\<close>

theorem C4_select_roundtrip_resets:
  assumes "B \<noteq> A"
  shows "formData (handleDiseaseSelect A (handleDiseaseSelect B
            (enterValues entries (handleDiseaseSelect A s)))) = Map.empty"
proof -
  let ?s1 = "enterValues entries (handleDiseaseSelect A s)"
  have "selectedDisease ?s1 = A"
    by (simp add: enterValues_selectedDisease handleDiseaseSelect_selectedDisease)
  then have "selectedDisease (handleDiseaseSelect B ?s1) \<noteq> A"
    using assms by (simp add: handleDiseaseSelect_selectedDisease)
  then show ?thesis by (rule handleDiseaseSelect_resets)
qed

theorem C4_select_roundtrip_witness:
  "formData (enterValues [(lit ''hemoglobin'', Text (lit ''12.5''))]
      (handleDiseaseSelect (lit ''anemia'') (pf_initial :: nat prediction_form)))
      (lit ''hemoglobin'') = Some (Text (lit ''12.5''))
   \<and> formData (handleDiseaseSelect (lit ''anemia'') (handleDiseaseSelect (lit ''diabetes'')
        (enterValues [(lit ''hemoglobin'', Text (lit ''12.5''))]
           (handleDiseaseSelect (lit ''anemia'') (pf_initial :: nat prediction_form)))))
      (lit ''hemoglobin'') = None"
  using C4_select_roundtrip_resets [of "lit ''diabetes''" "lit ''anemia''"
      "[(lit ''hemoglobin'', Text (lit ''12.5''))]" "pf_initial :: nat prediction_form"]
  by (simp add: handleInputChange_def handleDiseaseSelect_def pf_initial_def lit_eq_iff Let_def)

section \<open>Properties of DoctorDashboard and ConsultationManager\<close>

lemma count_list_map_filter:
  "count_list (map f xs) y = length (filter (\<lambda>x. f x = y) xs)"
  by (induction xs) auto

lemma nth_map_patchStatus:
  assumes "i < length cs"
  shows "map (patchStatus consultationId newStatus) cs ! i =
     (if c_id (cs ! i) = consultationId then (cs ! i)\<lparr>c_status := newStatus\<rparr> else cs ! i)"
  using assms by (simp add: patchStatus_def)

lemma updateStats_consultations:
  "dd_consultations (updateStats newDate toDateString now consultations cases s) = dd_consultations s"
  by (simp add: updateStats_def Let_def)

lemma handleStatusUpdate_success:
  assumes "updateConsultationStatus consultationId newStatus = Resolved True"
  shows "dd_consultations (handleStatusUpdate updateConsultationStatus newDate toDateString now
            consultationId newStatus rendered s)
         = map (patchStatus consultationId newStatus) (dd_consultations s)"
  using assms by (simp add: handleStatusUpdate_def Let_def updateStats_consultations)

lemma handleStatusUpdate_failure:
  assumes "updateConsultationStatus consultationId newStatus \<noteq> Resolved True"
  shows "handleStatusUpdate updateConsultationStatus newDate toDateString now
            consultationId newStatus rendered s = s"
  using assms by (auto simp: handleStatusUpdate_def split: outcome.splits)

lemma cm_handleStatusUpdate_success:
  assumes "truthy consultationId" "updateConsultationStatus consultationId newStatus = Resolved True"
  shows "cm_consultations (cm_handleStatusUpdate updateConsultationStatus consultationId newStatus s)
         = map (patchStatus consultationId newStatus) (cm_consultations s)"
  using assms by (simp add: cm_handleStatusUpdate_def Let_def)

lemma cm_handleStatusUpdate_failure:
  assumes "\<not> truthy consultationId \<or> updateConsultationStatus consultationId newStatus \<noteq> Resolved True"
  shows "cm_consultations (cm_handleStatusUpdate updateConsultationStatus consultationId newStatus s)
         = cm_consultations s"
  using assms by (auto simp: cm_handleStatusUpdate_def Let_def split: outcome.splits)

text \<open>
  C1. For every list of consultations handed to \<open>updateStats\<close>, the counter
  \<open>todayAppointments\<close> is the number of consultations whose \<open>requested_date\<close>, rendered
  as a date string, is the date string of the current date.
\<close>

theorem C1_todayAppointments_count:
  "todayAppointments (dd_stats (updateStats newDate toDateString now (Some cs) cases s))
   = count_list (map (\<lambda>c. toDateString (newDate (requested_date c))) cs) (toDateString now)"
  by (simp add: updateStats_def Let_def count_list_map_filter)

theorem C1_todayAppointments_witness:
  "todayAppointments (dd_stats (updateStats id dayOf (lit ''2026-11-02T12:00'') (Some visits) None
      dd_initial)) = 2"
  using C1_todayAppointments_count [of id dayOf "lit ''2026-11-02T12:00''" visits None dd_initial]
  by (simp add: visits_def dayOf_def lit_def)

text \<open>
  C2. In both components, when the update endpoint reports success the consultation
  list keeps its length, every record with the given id has its status set to the new
  status and its other fields kept, and every other record is unchanged; when the
  endpoint reports failure or rejects (or, in the consultation manager, is not called
  because the id is falsy) the list is what it was before the call.
\<close>

theorem C2_status_update:
  "(updateConsultationStatus consultationId newStatus = Resolved True \<longrightarrow>
      length (dd_consultations (handleStatusUpdate updateConsultationStatus newDate toDateString
         now consultationId newStatus rendered s)) = length (dd_consultations s)
      \<and> (\<forall>i < length (dd_consultations s).
            dd_consultations (handleStatusUpdate updateConsultationStatus newDate toDateString
               now consultationId newStatus rendered s) ! i
            = (if c_id (dd_consultations s ! i) = consultationId
               then (dd_consultations s ! i)\<lparr>c_status := newStatus\<rparr>
               else dd_consultations s ! i)))
   \<and> (updateConsultationStatus consultationId newStatus \<noteq> Resolved True \<longrightarrow>
        dd_consultations (handleStatusUpdate updateConsultationStatus newDate toDateString
           now consultationId newStatus rendered s) = dd_consultations s)
   \<and> (truthy consultationId \<and> updateConsultationStatus consultationId newStatus = Resolved True \<longrightarrow>
        length (cm_consultations (cm_handleStatusUpdate updateConsultationStatus consultationId
           newStatus m)) = length (cm_consultations m)
        \<and> (\<forall>i < length (cm_consultations m).
              cm_consultations (cm_handleStatusUpdate updateConsultationStatus consultationId
                 newStatus m) ! i
              = (if c_id (cm_consultations m ! i) = consultationId
                 then (cm_consultations m ! i)\<lparr>c_status := newStatus\<rparr>
                 else cm_consultations m ! i)))
   \<and> (\<not> truthy consultationId \<or> updateConsultationStatus consultationId newStatus \<noteq> Resolved True \<longrightarrow>
        cm_consultations (cm_handleStatusUpdate updateConsultationStatus consultationId
           newStatus m) = cm_consultations m)"
proof (intro conjI impI allI)
  assume ok: "updateConsultationStatus consultationId newStatus = Resolved True"
  have eq: "dd_consultations (handleStatusUpdate updateConsultationStatus newDate toDateString
         now consultationId newStatus rendered s)
         = map (patchStatus consultationId newStatus) (dd_consultations s)"
    using ok by (rule handleStatusUpdate_success)
  show "length (dd_consultations (handleStatusUpdate updateConsultationStatus newDate toDateString
         now consultationId newStatus rendered s)) = length (dd_consultations s)"
    by (simp add: eq)
  fix i assume "i < length (dd_consultations s)"
  then show "dd_consultations (handleStatusUpdate updateConsultationStatus newDate toDateString
               now consultationId newStatus rendered s) ! i
            = (if c_id (dd_consultations s ! i) = consultationId
               then (dd_consultations s ! i)\<lparr>c_status := newStatus\<rparr>
               else dd_consultations s ! i)"
    unfolding eq by (rule nth_map_patchStatus)
next
  assume "updateConsultationStatus consultationId newStatus \<noteq> Resolved True"
  then show "dd_consultations (handleStatusUpdate updateConsultationStatus newDate toDateString
           now consultationId newStatus rendered s) = dd_consultations s"
    by (simp add: handleStatusUpdate_failure)
next
  assume a: "truthy consultationId \<and> updateConsultationStatus consultationId newStatus = Resolved True"
  then have t: "truthy consultationId"
    and ok: "updateConsultationStatus consultationId newStatus = Resolved True" by simp_all
  have eq: "cm_consultations (cm_handleStatusUpdate updateConsultationStatus consultationId
           newStatus m) = map (patchStatus consultationId newStatus) (cm_consultations m)"
    using t ok by (rule cm_handleStatusUpdate_success)
  show "length (cm_consultations (cm_handleStatusUpdate updateConsultationStatus consultationId
           newStatus m)) = length (cm_consultations m)"
    by (simp add: eq)
  fix i assume "i < length (cm_consultations m)"
  then show "cm_consultations (cm_handleStatusUpdate updateConsultationStatus consultationId
                 newStatus m) ! i
              = (if c_id (cm_consultations m ! i) = consultationId
                 then (cm_consultations m ! i)\<lparr>c_status := newStatus\<rparr>
                 else cm_consultations m ! i)"
    unfolding eq by (rule nth_map_patchStatus)
next
  assume "\<not> truthy consultationId \<or> updateConsultationStatus consultationId newStatus \<noteq> Resolved True"
  then show "cm_consultations (cm_handleStatusUpdate updateConsultationStatus consultationId
           newStatus m) = cm_consultations m"
    by (rule cm_handleStatusUpdate_failure)
qed

theorem C2_status_update_witness:
  "map c_status (dd_consultations (handleStatusUpdate accepting id dayOf (lit ''2026-11-02T12:00'')
      (Num 2) (lit ''completed'') (dd_initial\<lparr>dd_consultations := visits\<rparr>)
      (dd_initial\<lparr>dd_consultations := visits\<rparr>)))
     = [lit ''pending'', lit ''completed'', lit ''completed'']
   \<and> dd_consultations (handleStatusUpdate refusing id dayOf (lit ''2026-11-02T12:00'')
      (Num 2) (lit ''completed'') (dd_initial\<lparr>dd_consultations := visits\<rparr>)
      (dd_initial\<lparr>dd_consultations := visits\<rparr>)) = visits
   \<and> map c_status (cm_consultations (cm_handleStatusUpdate accepting (Num 2) (lit ''completed'')
        \<lparr> cm_consultations = visits, cm_loading = False, updatingStatus = Map.empty \<rparr>))
     = [lit ''pending'', lit ''completed'', lit ''completed'']
   \<and> cm_consultations (cm_handleStatusUpdate accepting (Num 0) (lit ''completed'')
        \<lparr> cm_consultations = visits, cm_loading = False, updatingStatus = Map.empty \<rparr>) = visits"
  using C2_status_update [of accepting "Num 2" "lit ''completed''" id dayOf
      "lit ''2026-11-02T12:00''" "dd_initial\<lparr>dd_consultations := visits\<rparr>"
      "dd_initial\<lparr>dd_consultations := visits\<rparr>"
      "\<lparr> cm_consultations = visits, cm_loading = False, updatingStatus = Map.empty \<rparr>"]
    C2_status_update [of refusing "Num 2" "lit ''completed''" id dayOf
      "lit ''2026-11-02T12:00''" "dd_initial\<lparr>dd_consultations := visits\<rparr>"
      "dd_initial\<lparr>dd_consultations := visits\<rparr>"
      "\<lparr> cm_consultations = visits, cm_loading = False, updatingStatus = Map.empty \<rparr>"]
    C2_status_update [of accepting "Num 0" "lit ''completed''" id dayOf
      "lit ''2026-11-02T12:00''" "dd_initial\<lparr>dd_consultations := visits\<rparr>"
      "dd_initial\<lparr>dd_consultations := visits\<rparr>"
      "\<lparr> cm_consultations = visits, cm_loading = False, updatingStatus = Map.empty \<rparr>"]
  by (simp add: handleStatusUpdate_def cm_handleStatusUpdate_def updateStats_def patchStatus_def
      accepting_def refusing_def visits_def dd_initial_def Let_def)

section \<open>Properties of CaseReview\<close>

lemma trim_empty_iff: "trim s = [] \<longleftrightarrow> (\<forall>c\<in>set s. isWhiteSpace c)"
proof -
  have "trim s = [] \<longleftrightarrow> (\<forall>c\<in>set (dropWhile isWhiteSpace s). isWhiteSpace c)"
    by (simp add: trim_def trimStart_def)
  also have "\<dots> \<longleftrightarrow> dropWhile isWhiteSpace s = []"
  proof
    assume all: "\<forall>c\<in>set (dropWhile isWhiteSpace s). isWhiteSpace c"
    show "dropWhile isWhiteSpace s = []"
    proof (rule ccontr)
      assume ne: "dropWhile isWhiteSpace s \<noteq> []"
      then have "\<not> isWhiteSpace (hd (dropWhile isWhiteSpace s))" by (rule hd_dropWhile)
      moreover from ne have "hd (dropWhile isWhiteSpace s) \<in> set (dropWhile isWhiteSpace s)"
        by (rule hd_in_set)
      ultimately show False using all by blast
    qed
  next
    assume e: "dropWhile isWhiteSpace s = []"
    show "\<forall>c\<in>set (dropWhile isWhiteSpace s). isWhiteSpace c" unfolding e by simp
  qed
  also have "\<dots> \<longleftrightarrow> (\<forall>c\<in>set s. isWhiteSpace c)" by simp
  finally show ?thesis .
qed

lemma nonBlank_iff: "nonBlank r \<longleftrightarrow> (\<exists>c\<in>set r. \<not> isWhiteSpace c)"
  by (simp add: nonBlank_def trim_empty_iff)

lemma filter_nonBlank: "filter nonBlank rs = filter (\<lambda>r. \<exists>c\<in>set r. \<not> isWhiteSpace c) rs"
  by (simp add: nonBlank_iff [abs_def])

text \<open>
  C8. A review submission posts one form to the endpoint. Its recommendations,
  medications and lifestyle changes are the entered lists without the entries that
  consist of white space only, the others in their entered order; diagnosis, severity and
  the follow-up flag are posted as entered. The parent's callback runs once when the
  endpoint reports success and not at all otherwise.
\<close>

theorem C8_review_submission:
  "\<exists>posted.
     re_posted (cr_handleSubmit reviewCase caseId s) = [(caseId, posted)]
   \<and> recommendations posted
       = filter (\<lambda>r. \<exists>c\<in>set r. \<not> isWhiteSpace c) (recommendations (reviewForm s))
   \<and> medications posted
       = filter (\<lambda>r. \<exists>c\<in>set r. \<not> isWhiteSpace c) (medications (reviewForm s))
   \<and> lifestyle_changes posted
       = filter (\<lambda>r. \<exists>c\<in>set r. \<not> isWhiteSpace c) (lifestyle_changes (reviewForm s))
   \<and> diagnosis posted = diagnosis (reviewForm s)
   \<and> severity posted = severity (reviewForm s)
   \<and> follow_up_required posted = follow_up_required (reviewForm s)
   \<and> re_onReviewed (cr_handleSubmit reviewCase caseId s)
       = (if \<exists>r. reviewCase caseId posted = Resolved r \<and> rr_success r then 1 else 0)"
proof -
  let ?posted = "cleanedForm (reviewForm s)"
  have sent: "re_posted (cr_handleSubmit reviewCase caseId s) = [(caseId, ?posted)]"
    by (simp add: cr_handleSubmit_def Let_def split: outcome.splits)
  have lists: "recommendations ?posted
       = filter (\<lambda>r. \<exists>c\<in>set r. \<not> isWhiteSpace c) (recommendations (reviewForm s))"
    "medications ?posted
       = filter (\<lambda>r. \<exists>c\<in>set r. \<not> isWhiteSpace c) (medications (reviewForm s))"
    "lifestyle_changes ?posted
       = filter (\<lambda>r. \<exists>c\<in>set r. \<not> isWhiteSpace c) (lifestyle_changes (reviewForm s))"
    by (simp_all add: cleanedForm_def filter_nonBlank)
  have rest: "diagnosis ?posted = diagnosis (reviewForm s)"
    "severity ?posted = severity (reviewForm s)"
    "follow_up_required ?posted = follow_up_required (reviewForm s)"
    by (simp_all add: cleanedForm_def)
  have cb: "re_onReviewed (cr_handleSubmit reviewCase caseId s)
       = (if \<exists>r. reviewCase caseId ?posted = Resolved r \<and> rr_success r then 1 else 0)"
    by (cases "reviewCase caseId ?posted") (simp_all add: cr_handleSubmit_def Let_def)
  from sent lists rest cb show ?thesis by blast
qed

theorem C8_review_submission_witness:
  "map (\<lambda>p. (recommendations (snd p), medications (snd p), lifestyle_changes (snd p)))
     (re_posted (cr_handleSubmit reviewAccepted (Str (lit ''case-9'')) draftReview))
   = [([lit ''Rest'', lit ''Recheck in 4 weeks''], [lit ''Iron 65mg''], [])]
   \<and> re_onReviewed (cr_handleSubmit reviewAccepted (Str (lit ''case-9'')) draftReview) = 1"
  using C8_review_submission [of reviewAccepted "Str (lit ''case-9'')" draftReview]
  by (simp add: cr_handleSubmit_def cleanedForm_def nonBlank_iff draftReview_def cr_initial_def
      reviewAccepted_def isWhiteSpace_def lit_def Let_def)

section \<open>Properties of DoctorPatientChat\<close>

lemma handleTyping_state: "fst (handleTyping room t s) = s\<lparr>isTyping := t\<rparr>"
  by (simp add: handleTyping_def)

lemma handleSendMessage_noop:
  assumes "(\<forall>c\<in>set (newMessage s). isWhiteSpace c) \<or> \<not> truthy room"
  shows "handleSendMessage sendMessage room s = (s, [])"
  using assms by (auto simp: handleSendMessage_def trim_empty_iff)

lemma handleSendMessage_success:
  assumes "\<not> (\<forall>c\<in>set (newMessage s). isWhiteSpace c)" "truthy room"
    and "sendMessage room (trim (newMessage s)) (lit ''text'') = Resolved True"
  shows "handleSendMessage sendMessage room s =
     (s\<lparr>newMessage := [], isTyping := False\<rparr>,
      SendMessage room (trim (newMessage s)) (lit ''text'') None
        # (if socket s then [EmitTyping room False] else []))"
proof -
  from assms(1) have "trim (newMessage s) \<noteq> []" by (simp add: trim_empty_iff)
  with assms(2,3) show ?thesis
    by (simp add: handleSendMessage_def handleTyping_def Let_def)
qed

lemma handleSendMessage_messages:
  "messages (fst (handleSendMessage sendMessage room s)) = messages s"
  by (simp add: handleSendMessage_def handleTyping_def Let_def split: outcome.splits)

lemma handleFileUpload_state: "fst (handleFileUpload uploadChatFile file room s) = s"
  by (simp add: handleFileUpload_def split: option.splits outcome.splits)

lemma loadChatMessages_messages:
  "messages (loadChatMessages getChatMessages room s) =
     (case getChatMessages room of
        Resolved (True, history) \<Rightarrow> if truthy room then history else messages s
      | _ \<Rightarrow> messages s)"
  by (simp add: loadChatMessages_def Let_def split: outcome.splits prod.splits bool.splits)

lemma onUserTyping_invariant:
  assumes "typingInvariant me (typingUsers s)"
  shows "typingInvariant me (typingUsers (onUserTyping me data s))"
proof (cases "user_id data = me")
  case True
  with assms show ?thesis by (simp add: onUserTyping_def)
next
  case False
  let ?others = "filter (\<lambda>u. user_id u \<noteq> user_id data) (typingUsers s)"
  from assms have "me \<notin> user_id ` set ?others" "distinct (map user_id ?others)"
    by (auto simp: typingInvariant_def distinct_map_filter)
  moreover have "user_id data \<notin> user_id ` set ?others" by auto
  ultimately show ?thesis using False
    by (auto simp: typingInvariant_def onUserTyping_def)
qed

lemma typingEvents_invariant:
  "typingInvariant me (typingUsers s) \<Longrightarrow> typingInvariant me (typingUsers (typingEvents me evs s))"
  by (induction evs arbitrary: s) (simp_all add: onUserTyping_invariant)

text \<open>
  C5. With an input of white space only (or empty), and likewise with a falsy room id,
  \<open>handleSendMessage\<close> calls nothing and returns the state it was given. With some other
  input and a room id, a successful send was made with the trimmed text, the input is
  empty afterwards and the local typing flag is false.
\<close>

theorem C5_send_validation:
  "((\<forall>c\<in>set (newMessage s). isWhiteSpace c) \<or> \<not> truthy room \<longrightarrow>
      handleSendMessage sendMessage room s = (s, []))
   \<and> (\<not> (\<forall>c\<in>set (newMessage s). isWhiteSpace c) \<and> truthy room
        \<and> sendMessage room (trim (newMessage s)) (lit ''text'') = Resolved True \<longrightarrow>
        newMessage (fst (handleSendMessage sendMessage room s)) = []
      \<and> isTyping (fst (handleSendMessage sendMessage room s)) = False
      \<and> hd (snd (handleSendMessage sendMessage room s))
          = SendMessage room (trim (newMessage s)) (lit ''text'') None)"
proof (intro conjI impI)
  assume "(\<forall>c\<in>set (newMessage s). isWhiteSpace c) \<or> \<not> truthy room"
  then show "handleSendMessage sendMessage room s = (s, [])"
    by (rule handleSendMessage_noop)
next
  assume a: "\<not> (\<forall>c\<in>set (newMessage s). isWhiteSpace c) \<and> truthy room
        \<and> sendMessage room (trim (newMessage s)) (lit ''text'') = Resolved True"
  then have eq: "handleSendMessage sendMessage room s =
     (s\<lparr>newMessage := [], isTyping := False\<rparr>,
      SendMessage room (trim (newMessage s)) (lit ''text'') None
        # (if socket s then [EmitTyping room False] else []))"
    by (intro handleSendMessage_success) simp_all
  show "newMessage (fst (handleSendMessage sendMessage room s)) = []"
    "isTyping (fst (handleSendMessage sendMessage room s)) = False"
    "hd (snd (handleSendMessage sendMessage room s))
          = SendMessage room (trim (newMessage s)) (lit ''text'') None"
    by (simp_all add: eq)
qed

lemma trim_hello: "trim (lit '' hello '') = lit ''hello''"
  by (simp add: trim_def trimStart_def isWhiteSpace_def lit_def)

lemma trim_idle: "trim [0x20, 0x09, 0x3000] = []"
  by (simp add: trim_def trimStart_def isWhiteSpace_def)

theorem C5_send_validation_witness:
  "handleSendMessage delivered (Str (lit ''room-1'')) idle = (idle, [])
   \<and> handleSendMessage delivered Undefined composing = (composing, [])
   \<and> newMessage (fst (handleSendMessage delivered (Str (lit ''room-1'')) composing)) = []
   \<and> isTyping (fst (handleSendMessage delivered (Str (lit ''room-1'')) composing)) = False
   \<and> hd (snd (handleSendMessage delivered (Str (lit ''room-1'')) composing))
       = SendMessage (Str (lit ''room-1'')) (lit ''hello'') (lit ''text'') None"
proof -
  have blank: "\<forall>c\<in>set (newMessage idle). isWhiteSpace c"
    by (simp add: idle_def chat_initial_def isWhiteSpace_def)
  have nonblank: "\<not> (\<forall>c\<in>set (newMessage composing). isWhiteSpace c)"
    by (simp add: composing_def chat_initial_def isWhiteSpace_def lit_def)
  have room: "truthy (Str (lit ''room-1''))" by (simp add: lit_def)
  have sending: "newMessage composing = lit '' hello ''"
    by (simp add: composing_def chat_initial_def)
  have ok: "delivered (Str (lit ''room-1'')) (trim (newMessage composing)) (lit ''text'')
      = Resolved True"
    by (simp add: delivered_def)
  have 1: "handleSendMessage delivered (Str (lit ''room-1'')) idle = (idle, [])"
    using C5_send_validation [of idle "Str (lit ''room-1'')" delivered] blank by blast
  have 2: "handleSendMessage delivered Undefined composing = (composing, [])"
    using C5_send_validation [of composing Undefined delivered] by simp
  have 3: "newMessage (fst (handleSendMessage delivered (Str (lit ''room-1'')) composing)) = []
      \<and> isTyping (fst (handleSendMessage delivered (Str (lit ''room-1'')) composing)) = False
      \<and> hd (snd (handleSendMessage delivered (Str (lit ''room-1'')) composing))
          = SendMessage (Str (lit ''room-1'')) (trim (newMessage composing)) (lit ''text'') None"
    using C5_send_validation [of composing "Str (lit ''room-1'')" delivered] nonblank room ok by blast
  from 1 2 3 show ?thesis by (simp add: sending trim_hello)
qed

text \<open>
  C6. No path of \<open>handleSendMessage\<close> changes the message list, whatever the endpoint
  answers; neither do the file upload, the typing handlers and the \<open>user_joined\<close>
  handler. The \<open>new_message\<close> event appends exactly the message it carries. (The one
  other writer of the list is the history load, which replaces the list by the fetched
  history and appends nothing.)
\<close>

theorem C6_send_never_appends:
  "messages (fst (handleSendMessage sendMessage room s)) = messages s
   \<and> messages (fst (handleFileUpload uploadChatFile file room s)) = messages s
   \<and> messages (fst (handleTyping room t s)) = messages s
   \<and> messages (onUserTyping me data s) = messages s
   \<and> messages (onUserJoined joined s) = messages s
   \<and> messages (onNewMessage message s) = messages s @ [message]
   \<and> messages (loadChatMessages getChatMessages room s) =
       (case getChatMessages room of
          Resolved (True, history) \<Rightarrow> if truthy room then history else messages s
        | _ \<Rightarrow> messages s)"
  by (simp add: handleSendMessage_messages handleFileUpload_state handleTyping_state
      loadChatMessages_messages onUserTyping_def onUserJoined_def onNewMessage_def)

theorem C6_send_never_appends_witness:
  "messages (fst (handleSendMessage delivered (Str (lit ''room-1'')) composing)) = [7]
   \<and> messages (onNewMessage 8 composing) = [7, 8]"
  using C6_send_never_appends [where sendMessage = delivered and room = "Str (lit ''room-1'')"
      and s = composing and message = 8]
  by (simp add: composing_def chat_initial_def)

text \<open>
  C9. Starting from an empty typing-user list, after any sequence of \<open>user_typing\<close>
  events the list holds no entry with the local user's id and at most one entry per user
  id. For an event of a remote user, \<open>typing = true\<close> leaves that event as the only
  entry of its user, \<open>typing = false\<close> leaves no entry of that user, and the entries of
  all other users are kept as they were; an event of the local user changes nothing.
\<close>

theorem C9_typing_users_invariant:
  "(typingUsers s = [] \<longrightarrow>
      me \<notin> user_id ` set (typingUsers (typingEvents me evs s))
    \<and> distinct (map user_id (typingUsers (typingEvents me evs s))))
   \<and> (user_id data \<noteq> me \<and> typing data \<longrightarrow>
        filter (\<lambda>u. user_id u = user_id data) (typingUsers (onUserTyping me data s)) = [data])
   \<and> (user_id data \<noteq> me \<and> \<not> typing data \<longrightarrow>
        user_id data \<notin> user_id ` set (typingUsers (onUserTyping me data s)))
   \<and> filter (\<lambda>u. user_id u \<noteq> user_id data) (typingUsers (onUserTyping me data s))
       = filter (\<lambda>u. user_id u \<noteq> user_id data) (typingUsers s)
   \<and> (user_id data = me \<longrightarrow> onUserTyping me data s = s)"
proof (intro conjI impI)
  assume "typingUsers s = []"
  then have "typingInvariant me (typingUsers s)" by (simp add: typingInvariant_def)
  then have inv: "typingInvariant me (typingUsers (typingEvents me evs s))"
    by (rule typingEvents_invariant)
  from inv show "me \<notin> user_id ` set (typingUsers (typingEvents me evs s))"
    by (simp add: typingInvariant_def)
  from inv show "distinct (map user_id (typingUsers (typingEvents me evs s)))"
    by (simp add: typingInvariant_def)
next
  assume "user_id data \<noteq> me \<and> typing data"
  then show "filter (\<lambda>u. user_id u = user_id data) (typingUsers (onUserTyping me data s)) = [data]"
    by (simp add: onUserTyping_def filter_empty_conv)
next
  assume "user_id data \<noteq> me \<and> \<not> typing data"
  then show "user_id data \<notin> user_id ` set (typingUsers (onUserTyping me data s))"
    by (auto simp: onUserTyping_def)
next
  show "filter (\<lambda>u. user_id u \<noteq> user_id data) (typingUsers (onUserTyping me data s))
       = filter (\<lambda>u. user_id u \<noteq> user_id data) (typingUsers s)"
    by (simp add: onUserTyping_def)
next
  assume "user_id data = me"
  then show "onUserTyping me data s = s" by (simp add: onUserTyping_def)
qed

theorem C9_typing_users_witness:
  "map user_id (typingUsers (typingEvents (Num 1)
      [\<lparr> user_id = Num 2, typing = True \<rparr>, \<lparr> user_id = Num 1, typing = True \<rparr>,
       \<lparr> user_id = Num 3, typing = True \<rparr>, \<lparr> user_id = Num 2, typing = True \<rparr>,
       \<lparr> user_id = Num 3, typing = False \<rparr>] (chat_initial :: nat chat))) = [Num 2]"
  using C9_typing_users_invariant [of "chat_initial :: nat chat" "Num 1"
      "[\<lparr> user_id = Num 2, typing = True \<rparr>, \<lparr> user_id = Num 1, typing = True \<rparr>,
       \<lparr> user_id = Num 3, typing = True \<rparr>, \<lparr> user_id = Num 2, typing = True \<rparr>,
       \<lparr> user_id = Num 3, typing = False \<rparr>]" "\<lparr> user_id = Num 2, typing = True \<rparr>"]
  by (simp add: onUserTyping_def chat_initial_def)

end
